theory Spec2Isabelle
  imports Main
begin

section \<open>The model selection helper of \<^verbatim>\<open>python/model_select_util.py\<close>\<close>

text \<open>
  The class \<^verbatim>\<open>ModelSelectUtil\<close> holds two class-level tables and six instance
  attributes. The tables are Python dictionaries; they are embedded as association lists
  in insertion order, since \<^verbatim>\<open>select_platform_widget\<close> iterates over
  \<^verbatim>\<open>model_configs.items()\<close>. The methods read the tables through \<^verbatim>\<open>self\<close>, so the
  embedded methods take the tables as arguments; \<open>model_configs\<close> and \<open>api_key_map\<close>
  below are the tables the class body assigns.
\<close>

subsection \<open>Tables\<close>

type_synonym model_config = "string \<times> string"
  \<comment> \<open>a tuple \<^verbatim>\<open>(model_name, platform_key)\<close>\<close>

type_synonym config_table = "(string \<times> model_config list) list"

type_synonym key_table = "(string \<times> string) list"

type_synonym environ = "string \<rightharpoonup> string"
  \<comment> \<open>the process environment read by \<^verbatim>\<open>os.getenv\<close>\<close>

definition model_configs :: config_table where
  "model_configs =
     [(''OpenAI'',
         [(''gpt-4o'', ''openai''),
          (''gpt-3.5-turbo'', ''openai''),
          (''gpt-5-nano'', ''openai'')]),
      (''Deepseek'',
         [(''deepseek-chat'', ''deepseek''),
          (''deepseek-coder'', ''deepseek'')]),
      (''Gemini'',
         [(''gemini-pro'', ''gemini''),
          (''gemini-flash'', ''gemini'')]),
      (''Anthropic'',
         [(''claude-3-sonnet-20240229'', ''anthropic''),
          (''claude-2.1'', ''anthropic'')])]"

definition api_key_map :: key_table where
  "api_key_map =
     [(''openai'', ''OPENAI_API_KEY''),
      (''deepseek'', ''DEEPSEEK_API_KEY''),
      (''gemini'', ''GEMINI_API_KEY''),
      (''anthropic'', ''ANTHROPIC_API_KEY'')]"

subsection \<open>Instance state\<close>

datatype py_error = IndexError

text \<open>
  A \<^verbatim>\<open>widgets.Dropdown\<close> as the constructor calls of the source build it. The field
  names carry a prefix because \<^verbatim>\<open>value\<close> is reserved.
\<close>

record dropdown =
  dd_options :: "string list"
  dd_value :: string
  dd_description :: string
  dd_disabled :: bool

text \<open>
  What a \<^verbatim>\<open>widgets.Output\<close> shows. Every write of the source is preceded by
  \<^verbatim>\<open>clear_output(wait=True)\<close>, so an output holds one item: nothing yet, a printed
  message, or the dropdown that the instance attribute refers to at that moment.
\<close>

datatype output_content = Blank | Printed string | DropdownShown

record util_state =
  platform_dropdown :: "dropdown option"
  model_dropdown :: "dropdown option"
  selected_platform :: "string option"
  selected_model :: "string option"
  platform_output :: output_content
  model_output :: output_content

text \<open>\<^verbatim>\<open>__init__\<close>: every attribute is \<^verbatim>\<open>None\<close>, both outputs are fresh.\<close>

definition init_state :: util_state where
  "init_state =
     \<lparr>platform_dropdown = None, model_dropdown = None,
      selected_platform = None, selected_model = None,
      platform_output = Blank, model_output = Blank\<rparr>"

text \<open>
  Python truth value of a \<^verbatim>\<open>str | None\<close>: \<^verbatim>\<open>None\<close> and the empty string are false.
\<close>

fun truthy :: "string option \<Rightarrow> bool" where
  "truthy None = False"
| "truthy (Some v) = (v \<noteq> [])"

subsection \<open>\<^verbatim>\<open>_check_api_key_exists\<close>\<close>

definition check_api_key_exists :: "key_table \<Rightarrow> environ \<Rightarrow> string \<Rightarrow> bool" where
  "check_api_key_exists km env platform_key =
     (let env_var = map_of km platform_key
      in if truthy env_var then truthy (env (the env_var)) else False)"

subsection \<open>\<^verbatim>\<open>select_platform_widget\<close>\<close>

text \<open>
  The loop over \<^verbatim>\<open>model_configs.items()\<close>. \<^verbatim>\<open>configs[0][1]\<close> raises
  \<^verbatim>\<open>IndexError\<close> on an empty list; nothing has been assigned to the instance by then.
\<close>

fun available_platforms :: "config_table \<Rightarrow> key_table \<Rightarrow> environ \<Rightarrow> py_error + string list" where
  "available_platforms [] km env = Inr []"
| "available_platforms ((platform_name, configs) # rest) km env =
     (case configs of
        [] \<Rightarrow> Inl IndexError
      | c # _ \<Rightarrow>
          (case available_platforms rest km env of
             Inl e \<Rightarrow> Inl e
           | Inr ps \<Rightarrow>
               Inr (if check_api_key_exists km env (snd c) then platform_name # ps else ps)))"

definition no_keys_message :: string where
  "no_keys_message =
     ''No API keys found for any configured platform. Please check your .env file.''"

definition select_platform_widget ::
  "config_table \<Rightarrow> key_table \<Rightarrow> environ \<Rightarrow> util_state \<Rightarrow> py_error + util_state" where
  "select_platform_widget cfgs km env s =
     (case available_platforms cfgs km env of
        Inl e \<Rightarrow> Inl e
      | Inr [] \<Rightarrow> Inr (s\<lparr>platform_output := Printed no_keys_message\<rparr>)
      | Inr (p # ps) \<Rightarrow>
          Inr (s\<lparr>platform_dropdown :=
                    Some \<lparr>dd_options = p # ps, dd_value = p,
                          dd_description = ''Platform:'', dd_disabled = False\<rparr>,
                  selected_platform := Some p,
                  platform_output := DropdownShown\<rparr>))"

subsection \<open>\<^verbatim>\<open>select_model_widget\<close>\<close>

text \<open>\<^verbatim>\<open>self.model_configs.get(name, [])\<close>.\<close>

definition platform_configs :: "config_table \<Rightarrow> string \<Rightarrow> model_config list" where
  "platform_configs cfgs name = (case map_of cfgs name of None \<Rightarrow> [] | Some configs \<Rightarrow> configs)"

text \<open>The list comprehension that collects the model names of a platform.\<close>

definition model_options :: "config_table \<Rightarrow> string \<Rightarrow> string list" where
  "model_options cfgs name = map fst (platform_configs cfgs name)"

definition no_models_message :: "string \<Rightarrow> string" where
  "no_models_message name = ''No models configured for '' @ name @ ''.''"

definition select_model_widget :: "config_table \<Rightarrow> util_state \<Rightarrow> util_state" where
  "select_model_widget cfgs s =
     (if \<not> truthy (selected_platform s) then s
      else
        (case model_options cfgs (the (selected_platform s)) of
           [] \<Rightarrow> s\<lparr>model_output := Printed (no_models_message (the (selected_platform s)))\<rparr>
         | m # ms \<Rightarrow>
             s\<lparr>model_dropdown :=
                  Some \<lparr>dd_options = m # ms, dd_value = m,
                        dd_description = ''Model:'', dd_disabled = False\<rparr>,
               selected_model := Some m,
               model_output := DropdownShown\<rparr>))"

subsection \<open>The observers\<close>

text \<open>The dictionary a traitlets observer receives, with the entries the source reads.\<close>

record change =
  ch_type :: string
  ch_name :: string
  ch_new :: string

definition on_platform_change :: "config_table \<Rightarrow> change \<Rightarrow> util_state \<Rightarrow> util_state" where
  "on_platform_change cfgs chg s =
     (if ch_type chg = ''change'' \<and> ch_name chg = ''value''
      then select_model_widget cfgs (s\<lparr>selected_platform := Some (ch_new chg)\<rparr>)
      else s)"

definition on_model_change :: "change \<Rightarrow> util_state \<Rightarrow> util_state" where
  "on_model_change chg s =
     (if ch_type chg = ''change'' \<and> ch_name chg = ''value''
      then s\<lparr>selected_model := Some (ch_new chg)\<rparr>
      else s)"

subsection \<open>Accessors\<close>

definition get_selected_platform :: "util_state \<Rightarrow> string option" where
  "get_selected_platform s = selected_platform s"

definition get_selected_model :: "util_state \<Rightarrow> string option" where
  "get_selected_model s = selected_model s"

text \<open>The search loop of \<^verbatim>\<open>get_model_params\<close>: the first tuple with the name decides.\<close>

fun find_model_params :: "model_config list \<Rightarrow> string \<Rightarrow> string option" where
  "find_model_params [] m = None"
| "find_model_params ((model_name, platform_key) # rest) m =
     (if model_name = m then Some (platform_key @ '':'' @ model_name)
      else find_model_params rest m)"

definition get_model_params :: "config_table \<Rightarrow> util_state \<Rightarrow> string option" where
  "get_model_params cfgs s =
     (if \<not> truthy (selected_platform s) \<or> \<not> truthy (selected_model s) then None
      else find_model_params (platform_configs cfgs (the (selected_platform s)))
             (the (selected_model s)))"

subsection \<open>\<^verbatim>\<open>display_widgets\<close>\<close>

text \<open>
  \<^verbatim>\<open>select_platform_widget\<close> returns the output widget, an object, which is true in
  the test that follows; so \<^verbatim>\<open>select_model_widget\<close> always runs next. The final
  \<^verbatim>\<open>display\<close> of the two outputs does not touch the instance.
\<close>

definition display_widgets ::
  "config_table \<Rightarrow> key_table \<Rightarrow> environ \<Rightarrow> util_state \<Rightarrow> py_error + util_state" where
  "display_widgets cfgs km env s =
     (case select_platform_widget cfgs km env s of
        Inl e \<Rightarrow> Inl e
      | Inr s1 \<Rightarrow> Inr (select_model_widget cfgs s1))"

subsection \<open>Events and runs\<close>

text \<open>
  Both dropdowns are registered with \<^verbatim>\<open>observe\<close>. When the user picks an entry, the
  widget takes the new value and notifies its observer with a change of type
  \<^verbatim>\<open>change\<close> and name \<^verbatim>\<open>value\<close>. A dropdown accepts only one of its options, and
  notifies only when the value differs from the old one; a pick that cannot happen leaves
  the state as it is. The events are those of the dropdown the instance refers to, which
  is the one its output shows.
\<close>

definition value_change :: "string \<Rightarrow> change" where
  "value_change v = \<lparr>ch_type = ''change'', ch_name = ''value'', ch_new = v\<rparr>"

definition platform_value_event :: "config_table \<Rightarrow> string \<Rightarrow> util_state \<Rightarrow> util_state" where
  "platform_value_event cfgs v s =
     (case platform_dropdown s of
        None \<Rightarrow> s
      | Some d \<Rightarrow>
          if v \<in> set (dd_options d) \<and> v \<noteq> dd_value d
          then on_platform_change cfgs (value_change v)
                 (s\<lparr>platform_dropdown := Some (d\<lparr>dd_value := v\<rparr>)\<rparr>)
          else s)"

definition model_value_event :: "string \<Rightarrow> util_state \<Rightarrow> util_state" where
  "model_value_event v s =
     (case model_dropdown s of
        None \<Rightarrow> s
      | Some d \<Rightarrow>
          if v \<in> set (dd_options d) \<and> v \<noteq> dd_value d
          then on_model_change (value_change v) (s\<lparr>model_dropdown := Some (d\<lparr>dd_value := v\<rparr>)\<rparr>)
          else s)"

text \<open>
  What can happen to an instance: a call of one of its three widget methods, with the
  environment of that moment, or a pick in one of its dropdowns.
\<close>

datatype call =
    SelectPlatformWidget environ
  | SelectModelWidget
  | DisplayWidgets environ
  | PlatformPick string
  | ModelPick string

fun step :: "config_table \<Rightarrow> key_table \<Rightarrow> call \<Rightarrow> util_state \<Rightarrow> py_error + util_state" where
  "step cfgs km (SelectPlatformWidget env) s = select_platform_widget cfgs km env s"
| "step cfgs km SelectModelWidget s = Inr (select_model_widget cfgs s)"
| "step cfgs km (DisplayWidgets env) s = display_widgets cfgs km env s"
| "step cfgs km (PlatformPick v) s = Inr (platform_value_event cfgs v s)"
| "step cfgs km (ModelPick v) s = Inr (model_value_event v s)"

text \<open>A sequence of calls and events; an exception ends it.\<close>

fun run :: "config_table \<Rightarrow> key_table \<Rightarrow> call list \<Rightarrow> util_state \<Rightarrow> py_error + util_state" where
  "run cfgs km [] s = Inr s"
| "run cfgs km (c # cs) s =
     (case step cfgs km c s of Inl e \<Rightarrow> Inl e | Inr s' \<Rightarrow> run cfgs km cs s')"

text \<open>Whether a pick of \<open>v\<close> in a dropdown notifies its observer.\<close>

definition pick_fires :: "dropdown option \<Rightarrow> string \<Rightarrow> bool" where
  "pick_fires dd v =
     (case dd of None \<Rightarrow> False | Some d \<Rightarrow> v \<in> set (dd_options d) \<and> v \<noteq> dd_value d)"

text \<open>
  Whether \<^verbatim>\<open>select_platform_widget\<close> has changed the selected platform and
  \<^verbatim>\<open>select_model_widget\<close> has not run since, neither called directly, nor by
  \<^verbatim>\<open>display_widgets\<close>, nor by \<^verbatim>\<open>on_platform_change\<close> after a pick in the platform
  dropdown. The last argument is the answer before the call.
\<close>

fun pending_after :: "config_table \<Rightarrow> key_table \<Rightarrow> call \<Rightarrow> util_state \<Rightarrow> bool \<Rightarrow> bool" where
  "pending_after cfgs km (SelectPlatformWidget env) s b =
     (case select_platform_widget cfgs km env s of
        Inl e \<Rightarrow> b
      | Inr s' \<Rightarrow> if selected_platform s' = selected_platform s then b else True)"
| "pending_after cfgs km SelectModelWidget s b = False"
| "pending_after cfgs km (DisplayWidgets env) s b = False"
| "pending_after cfgs km (PlatformPick v) s b =
     (if pick_fires (platform_dropdown s) v then False else b)"
| "pending_after cfgs km (ModelPick v) s b = b"

fun run_pending :: "config_table \<Rightarrow> key_table \<Rightarrow> call list \<Rightarrow> util_state \<Rightarrow> bool \<Rightarrow> bool" where
  "run_pending cfgs km [] s b = b"
| "run_pending cfgs km (c # cs) s b =
     (case step cfgs km c s of
        Inl e \<Rightarrow> b
      | Inr s' \<Rightarrow> run_pending cfgs km cs s' (pending_after cfgs km c s b))"

subsection \<open>Properties of states and tables\<close>

text \<open>The selected model is one of the models listed for the selected platform.\<close>

definition selection_consistent :: "config_table \<Rightarrow> util_state \<Rightarrow> bool" where
  "selection_consistent cfgs s =
     (case selected_platform s of
        None \<Rightarrow> True
      | Some p \<Rightarrow>
          (case selected_model s of
             None \<Rightarrow> True
           | Some m \<Rightarrow> m \<in> set (model_options cfgs p)))"

text \<open>
  A table in which every platform has a name and at least one model, as in
  \<open>model_configs\<close>.
\<close>

definition nonempty_table :: "config_table \<Rightarrow> bool" where
  "nonempty_table cfgs = list_all (\<lambda>(name, configs). name \<noteq> [] \<and> configs \<noteq> []) cfgs"

text \<open>
  Two tables that agree on the platform names and, for each platform, on the key of its
  first tuple (or on having no tuple).
\<close>

definition same_first_keys :: "config_table \<Rightarrow> config_table \<Rightarrow> bool" where
  "same_first_keys cfgs cfgs' =
     list_all2 (\<lambda>(name, configs) (name', configs').
                  name = name' \<and> map snd (take 1 configs) = map snd (take 1 configs'))
       cfgs cfgs'"

text \<open>Environments and states used as concrete inputs.\<close>

definition env_none :: environ where
  "env_none = Map.empty"

definition env_openai :: environ where
  "env_openai = [''OPENAI_API_KEY'' \<mapsto> ''sk-1'']"

definition env_two :: environ where
  "env_two = [''OPENAI_API_KEY'' \<mapsto> ''sk-1'', ''DEEPSEEK_API_KEY'' \<mapsto> ''sk-2'']"

definition env_deepseek :: environ where
  "env_deepseek = [''DEEPSEEK_API_KEY'' \<mapsto> ''sk-2'']"

definition env_openai_home :: environ where
  "env_openai_home = [''OPENAI_API_KEY'' \<mapsto> ''sk-1'', ''HOME'' \<mapsto> ''/root'']"

definition env_empty_value :: environ where
  "env_empty_value = [''OPENAI_API_KEY'' \<mapsto> []]"

definition platform_dropdown_two :: dropdown where
  "platform_dropdown_two =
     \<lparr>dd_options = [''OpenAI'', ''Deepseek''], dd_value = ''OpenAI'',
      dd_description = ''Platform:'', dd_disabled = False\<rparr>"

definition deepseek_dropdown :: dropdown where
  "deepseek_dropdown =
     \<lparr>dd_options = [''deepseek-chat'', ''deepseek-coder''], dd_value = ''deepseek-chat'',
      dd_description = ''Model:'', dd_disabled = False\<rparr>"

text \<open>
  The state after building both widgets, picking \<^verbatim>\<open>Deepseek\<close> and calling
  \<^verbatim>\<open>select_platform_widget\<close> once more, with keys for OpenAI and Deepseek.
\<close>

definition stale_state :: util_state where
  "stale_state =
     \<lparr>platform_dropdown = Some platform_dropdown_two,
      model_dropdown = Some deepseek_dropdown,
      selected_platform = Some ''OpenAI'',
      selected_model = Some ''deepseek-chat'',
      platform_output = DropdownShown,
      model_output = DropdownShown\<rparr>"

text \<open>\<open>model_configs\<close> with the key of the second OpenAI tuple replaced.\<close>

definition mixed_configs :: config_table where
  "mixed_configs =
     [(''OpenAI'',
         [(''gpt-4o'', ''openai''),
          (''gpt-3.5-turbo'', ''deepseek''),
          (''gpt-5-nano'', ''openai'')]),
      (''Deepseek'',
         [(''deepseek-chat'', ''deepseek''),
          (''deepseek-coder'', ''deepseek'')]),
      (''Gemini'',
         [(''gemini-pro'', ''gemini''),
          (''gemini-flash'', ''gemini'')]),
      (''Anthropic'',
         [(''claude-3-sonnet-20240229'', ''anthropic''),
          (''claude-2.1'', ''anthropic'')])]"

text \<open>
  The state after \<^verbatim>\<open>display_widgets\<close> on a fresh instance when only the OpenAI key
  is set.
\<close>

definition openai_state :: util_state where
  "openai_state =
     \<lparr>platform_dropdown =
        Some \<lparr>dd_options = [''OpenAI''], dd_value = ''OpenAI'',
              dd_description = ''Platform:'', dd_disabled = False\<rparr>,
      model_dropdown =
        Some \<lparr>dd_options = [''gpt-4o'', ''gpt-3.5-turbo'', ''gpt-5-nano''],
              dd_value = ''gpt-4o'', dd_description = ''Model:'', dd_disabled = False\<rparr>,
      selected_platform = Some ''OpenAI'',
      selected_model = Some ''gpt-4o'',
      platform_output = DropdownShown,
      model_output = DropdownShown\<rparr>"

text \<open>A state whose selected platform is not a key of \<open>model_configs\<close>.\<close>

definition unknown_platform_state :: util_state where
  "unknown_platform_state = stale_state\<lparr>selected_platform := Some ''Mistral''\<rparr>"

text \<open>
  The selected platform and the options of the platform dropdown are platforms of the
  table.
\<close>

definition platforms_known :: "config_table \<Rightarrow> util_state \<Rightarrow> bool" where
  "platforms_known cfgs s =
     ((case selected_platform s of None \<Rightarrow> True | Some p \<Rightarrow> p \<in> fst ` set cfgs) \<and>
      (case platform_dropdown s of
         None \<Rightarrow> True
       | Some d \<Rightarrow> set (dd_options d) \<subseteq> fst ` set cfgs))"

text \<open>
  The dropdowns agree with the table and with the selection: the platforms are known,
  the options of the model dropdown are the models of the selected platform, and the
  selection is consistent.
\<close>

definition widgets_in_step :: "config_table \<Rightarrow> util_state \<Rightarrow> bool" where
  "widgets_in_step cfgs s =
     (platforms_known cfgs s \<and>
      (case model_dropdown s of
         None \<Rightarrow> True
       | Some d \<Rightarrow>
           (case selected_platform s of
              None \<Rightarrow> False
            | Some p \<Rightarrow> dd_options d = model_options cfgs p)) \<and>
      selection_consistent cfgs s)"

text \<open>A model is selected, and a model dropdown exists, only once a platform is selected.\<close>

definition no_orphan_model :: "util_state \<Rightarrow> bool" where
  "no_orphan_model s =
     (case selected_platform s of
        None \<Rightarrow> selected_model s = None \<and> model_dropdown s = None
      | Some p \<Rightarrow> True)"

text \<open>
  The model dropdown of the instance was built for the selected platform: its options are
  the model names of that platform.
\<close>

definition built_for_selection :: "config_table \<Rightarrow> util_state \<Rightarrow> bool" where
  "built_for_selection cfgs s =
     (case selected_platform s of
        None \<Rightarrow> False
      | Some p \<Rightarrow>
          (case model_dropdown s of
             None \<Rightarrow> False
           | Some d \<Rightarrow> dd_options d = model_options cfgs p))"

text \<open>
  The model dropdown and the selected model come together: without a dropdown no model
  is selected, and with one its options are the model names of a platform of the table
  and the selected model is one of them.
\<close>

definition model_widget_coherent :: "config_table \<Rightarrow> util_state \<Rightarrow> bool" where
  "model_widget_coherent cfgs s =
     (case model_dropdown s of
        None \<Rightarrow> selected_model s = None
      | Some d \<Rightarrow>
          list_ex (\<lambda>(q, configs). dd_options d = model_options cfgs q) cfgs \<and>
          (case selected_model s of None \<Rightarrow> False | Some m \<Rightarrow> m \<in> set (dd_options d)))"

text \<open>
  What a run maintains. While a model widget is pending, the model dropdown need not be
  the one of the selected platform.
\<close>

definition run_invariant :: "config_table \<Rightarrow> bool \<Rightarrow> util_state \<Rightarrow> bool" where
  "run_invariant cfgs pending s =
     (platforms_known cfgs s \<and> no_orphan_model s \<and> model_widget_coherent cfgs s \<and>
      (if pending then True else widgets_in_step cfgs s))"

section \<open>Auxiliary facts\<close>

lemma check_api_key_exists_iff:
  "check_api_key_exists km env k =
     (\<exists>var v. map_of km k = Some var \<and> var \<noteq> [] \<and> env var = Some v \<and> v \<noteq> [])"
proof (cases "map_of km k")
  case None
  then show ?thesis by (simp add: check_api_key_exists_def)
next
  case (Some var)
  then show ?thesis
    by (cases "env var") (auto simp: check_api_key_exists_def)
qed

lemma api_key_map_vars_nonempty:
  "map_of api_key_map k = Some var \<Longrightarrow> var \<noteq> []"
  by (auto simp: api_key_map_def split: if_splits)

lemma nonempty_table_model_configs: "nonempty_table model_configs"
  by (simp add: nonempty_table_def model_configs_def)

lemma distinct_model_configs: "distinct (map fst model_configs)"
  by (simp add: model_configs_def)

lemma nonempty_tableD:
  "nonempty_table cfgs \<Longrightarrow> (name, configs) \<in> set cfgs \<Longrightarrow> name \<noteq> [] \<and> configs \<noteq> []"
  by (auto simp: nonempty_table_def list_all_iff)

lemma available_platforms_total:
  "nonempty_table cfgs \<Longrightarrow> \<exists>avail. available_platforms cfgs km env = Inr avail"
proof (induction cfgs)
  case Nil
  then show ?case by simp
next
  case (Cons a cfgs)
  obtain name configs where a: "a = (name, configs)" by (cases a)
  from Cons.prems a have ne: "configs \<noteq> []" and rest: "nonempty_table cfgs"
    by (simp_all add: nonempty_table_def)
  from Cons.IH [OF rest] obtain ps where "available_platforms cfgs km env = Inr ps" ..
  with a ne show ?case by (cases configs) simp_all
qed

lemma set_available_platforms:
  "available_platforms cfgs km env = Inr avail \<Longrightarrow>
     set avail = {name. \<exists>configs. (name, configs) \<in> set cfgs \<and>
                    check_api_key_exists km env (snd (hd configs))}"
proof (induction cfgs arbitrary: avail)
  case Nil
  then show ?case by simp
next
  case (Cons a cfgs)
  obtain name configs where a: "a = (name, configs)" by (cases a)
  show ?case
  proof (cases configs)
    case Nil
    with Cons.prems a show ?thesis by simp
  next
    case (Cons c cs)
    with Cons.prems a obtain ps where ps: "available_platforms cfgs km env = Inr ps"
      and avail: "avail = (if check_api_key_exists km env (snd c) then name # ps else ps)"
      by (auto split: sum.splits)
    from Cons.IH [OF ps] have "set ps = {name. \<exists>configs. (name, configs) \<in> set cfgs \<and>
                    check_api_key_exists km env (snd (hd configs))}" .
    with avail a Cons show ?thesis by auto
  qed
qed

lemma available_platforms_subset:
  "available_platforms cfgs km env = Inr avail \<Longrightarrow> set avail \<subseteq> fst ` set cfgs"
  by (drule set_available_platforms) force

lemma model_configs_shared_key:
  "(name, configs) \<in> set model_configs \<Longrightarrow> (m, key) \<in> set configs \<Longrightarrow> snd (hd configs) = key"
  unfolding model_configs_def by (elim disjE | simp)+

lemma available_platforms_mem:
  assumes avail: "available_platforms cfgs km env = Inr avail"
    and dist: "distinct (map fst cfgs)"
    and mem: "(name, configs) \<in> set cfgs"
  shows "(name \<in> set avail) = check_api_key_exists km env (snd (hd configs))"
proof
  assume "name \<in> set avail"
  with set_available_platforms [OF avail] obtain configs'
    where m': "(name, configs') \<in> set cfgs"
      and c': "check_api_key_exists km env (snd (hd configs'))" by blast
  from dist m' mem have "configs' = configs" by (rule eq_key_imp_eq_value)
  with c' show "check_api_key_exists km env (snd (hd configs))" by simp
next
  assume "check_api_key_exists km env (snd (hd configs))"
  with mem set_available_platforms [OF avail] show "name \<in> set avail" by blast
qed

lemma no_key_no_platform:
  assumes "\<forall>(platform_key, env_var) \<in> set km. \<not> truthy (env env_var)"
    and "available_platforms cfgs km env = Inr avail"
  shows "avail = []"
proof -
  have "\<not> check_api_key_exists km env k" for k
  proof (cases "map_of km k")
    case None
    then show ?thesis by (simp add: check_api_key_exists_def)
  next
    case (Some var)
    then have "(k, var) \<in> set km" by (rule map_of_SomeD)
    with assms(1) have "\<not> truthy (env var)" by blast
    with Some show ?thesis by (simp add: check_api_key_exists_def)
  qed
  with set_available_platforms [OF assms(2)] have "set avail = {}" by simp
  then show ?thesis by simp
qed

lemma find_model_params_None:
  "(find_model_params configs m = None) = (m \<notin> fst ` set configs)"
  by (induction configs m rule: find_model_params.induct) auto

lemma find_model_params_Some:
  "find_model_params configs m = Some r \<Longrightarrow>
     \<exists>key. (m, key) \<in> set configs \<and> r = key @ '':'' @ m"
  by (induction configs m rule: find_model_params.induct) (auto split: if_splits)

lemma available_platforms_same_first_keys:
  "same_first_keys cfgs cfgs' \<Longrightarrow>
     available_platforms cfgs km env = available_platforms cfgs' km env"
  unfolding same_first_keys_def
proof (induction rule: list_all2_induct)
  case Nil
  then show ?case by simp
next
  case (Cons x xs y ys)
  obtain name configs where x: "x = (name, configs)" by (cases x)
  obtain name' configs' where y: "y = (name', configs')" by (cases y)
  from Cons(1) x y have n: "name = name'"
    and k: "map snd (take 1 configs) = map snd (take 1 configs')" by simp_all
  show ?case
    using x y n k Cons.IH by (cases configs; cases configs') (auto split: sum.splits)
qed

lemma select_model_widget_first_model:
  assumes dist: "distinct (map fst cfgs)" and mem: "(name, configs) \<in> set cfgs"
    and name: "name \<noteq> []" and ne: "configs \<noteq> []"
    and sel: "selected_platform s = Some name"
  shows "selected_platform (select_model_widget cfgs s) = Some name \<and>
         selected_model (select_model_widget cfgs s) = Some (fst (hd configs)) \<and>
         model_dropdown (select_model_widget cfgs s) =
           Some \<lparr>dd_options = map fst configs, dd_value = fst (hd configs),
                 dd_description = ''Model:'', dd_disabled = False\<rparr>"
proof -
  from dist mem have "map_of cfgs name = Some configs" by (rule map_of_is_SomeI)
  then have opts: "model_options cfgs name = map fst configs"
    by (simp add: model_options_def platform_configs_def)
  from ne obtain c cs where cs: "configs = c # cs" by (cases configs) auto
  with opts sel name show ?thesis by (simp add: select_model_widget_def)
qed

lemma known_platform_has_models:
  assumes "nonempty_table cfgs" and "p \<in> fst ` set cfgs"
  shows "p \<noteq> [] \<and> model_options cfgs p \<noteq> []"
proof -
  from assms(2) obtain configs where c: "map_of cfgs p = Some configs"
    by (cases "map_of cfgs p") (auto simp: map_of_eq_None_iff)
  then have "(p, configs) \<in> set cfgs" by (rule map_of_SomeD)
  with assms(1) have "p \<noteq> [] \<and> configs \<noteq> []" by (rule nonempty_tableD)
  with c show ?thesis by (simp add: model_options_def platform_configs_def)
qed

lemma select_model_widget_no_platform:
  "selected_platform s = None \<Longrightarrow> select_model_widget cfgs s = s"
  by (simp add: select_model_widget_def)

lemma select_model_widget_in_step:
  assumes ne: "nonempty_table cfgs" and known: "platforms_known cfgs s"
    and p: "selected_platform s = Some p"
  shows "widgets_in_step cfgs (select_model_widget cfgs s)"
proof -
  from known p have "p \<in> fst ` set cfgs" by (simp add: platforms_known_def)
  with ne have pne: "p \<noteq> []" and "model_options cfgs p \<noteq> []"
    using known_platform_has_models by blast+
  then obtain m ms where ms: "model_options cfgs p = m # ms" by (cases "model_options cfgs p") auto
  with p pne have "select_model_widget cfgs s =
      s\<lparr>model_dropdown :=
                  Some \<lparr>dd_options = m # ms, dd_value = m,
                        dd_description = ''Model:'', dd_disabled = False\<rparr>,
               selected_model := Some m,
               model_output := DropdownShown\<rparr>"
    by (simp add: select_model_widget_def)
  with known p ms show ?thesis
    by (simp add: widgets_in_step_def platforms_known_def selection_consistent_def)
qed

lemma model_widget_coherentI:
  assumes "model_dropdown s = Some d" and "q \<in> fst ` set cfgs"
    and "dd_options d = model_options cfgs q"
    and "selected_model s = Some m" and "m \<in> set (dd_options d)"
  shows "model_widget_coherent cfgs s"
proof -
  from assms(2) obtain configs where "(q, configs) \<in> set cfgs" by auto
  with assms(3) have "list_ex (\<lambda>(q, configs). dd_options d = model_options cfgs q) cfgs"
    by (auto simp: list_ex_iff)
  with assms(1,4,5) show ?thesis by (simp add: model_widget_coherent_def)
qed

lemma select_model_widget_coherent:
  assumes ne: "nonempty_table cfgs" and known: "platforms_known cfgs s"
    and p: "selected_platform s = Some p"
  shows "model_widget_coherent cfgs (select_model_widget cfgs s) \<and>
         no_orphan_model (select_model_widget cfgs s)"
proof -
  from known p have pin: "p \<in> fst ` set cfgs" by (simp add: platforms_known_def)
  with ne have pne: "p \<noteq> []" and "model_options cfgs p \<noteq> []"
    using known_platform_has_models by blast+
  then obtain m ms where ms: "model_options cfgs p = m # ms" by (cases "model_options cfgs p") auto
  with p pne have eq: "select_model_widget cfgs s =
      s\<lparr>model_dropdown :=
                  Some \<lparr>dd_options = m # ms, dd_value = m,
                        dd_description = ''Model:'', dd_disabled = False\<rparr>,
               selected_model := Some m,
               model_output := DropdownShown\<rparr>"
    by (simp add: select_model_widget_def)
  have "model_widget_coherent cfgs (select_model_widget cfgs s)"
    unfolding eq using pin ms
    by (intro model_widget_coherentI
        [where q = p and m = m and
          d = "\<lparr>dd_options = m # ms, dd_value = m,
                dd_description = ''Model:'', dd_disabled = False\<rparr>"]) simp_all
  moreover have "no_orphan_model (select_model_widget cfgs s)"
    unfolding eq using p by (simp add: no_orphan_model_def)
  ultimately show ?thesis by blast
qed

lemma select_platform_widget_invariant:
  assumes ne: "nonempty_table cfgs" and inv: "run_invariant cfgs b s"
  shows "\<exists>s'. select_platform_widget cfgs km env s = Inr s' \<and>
    run_invariant cfgs (pending_after cfgs km (SelectPlatformWidget env) s b) s'"
proof -
  from available_platforms_total [OF ne]
  obtain avail where avail: "available_platforms cfgs km env = Inr avail" ..
  show ?thesis
  proof (cases avail)
    case Nil
    let ?s1 = "s\<lparr>platform_output := Printed no_keys_message\<rparr>"
    from Nil avail have spw: "select_platform_widget cfgs km env s = Inr ?s1"
      by (simp add: select_platform_widget_def)
    from inv have "platforms_known cfgs ?s1" and "no_orphan_model ?s1"
      and "model_widget_coherent cfgs ?s1"
      by (simp_all add: run_invariant_def platforms_known_def no_orphan_model_def
          model_widget_coherent_def cong: option.case_cong)
    moreover have "widgets_in_step cfgs ?s1" if "widgets_in_step cfgs s"
      using that
      by (simp add: widgets_in_step_def platforms_known_def selection_consistent_def
          cong: option.case_cong)
    ultimately have "run_invariant cfgs b ?s1"
      using inv by (simp add: run_invariant_def)
    with spw show ?thesis by simp
  next
    case (Cons p ps)
    let ?s1 = "s\<lparr>platform_dropdown :=
                    Some \<lparr>dd_options = p # ps, dd_value = p,
                          dd_description = ''Platform:'', dd_disabled = False\<rparr>,
                  selected_platform := Some p,
                  platform_output := DropdownShown\<rparr>"
    from Cons avail have spw: "select_platform_widget cfgs km env s = Inr ?s1"
      by (simp add: select_platform_widget_def)
    from available_platforms_subset [OF avail] Cons
    have known: "platforms_known cfgs ?s1" by (simp add: platforms_known_def)
    have orphan: "no_orphan_model ?s1" by (simp add: no_orphan_model_def)
    from inv have coh: "model_widget_coherent cfgs ?s1"
      by (simp add: run_invariant_def model_widget_coherent_def cong: option.case_cong)
    show ?thesis
    proof (cases "selected_platform s = Some p")
      case True
      have "widgets_in_step cfgs ?s1" if "widgets_in_step cfgs s"
        using that True known
        by (simp add: widgets_in_step_def selection_consistent_def cong: option.case_cong)
      with inv known orphan coh have "run_invariant cfgs b ?s1"
        by (simp add: run_invariant_def)
      with spw True show ?thesis by simp
    next
      case False
      from known orphan coh have "run_invariant cfgs True ?s1" by (simp add: run_invariant_def)
      with spw False show ?thesis by auto
    qed
  qed
qed

lemma select_model_widget_invariant:
  assumes ne: "nonempty_table cfgs" and inv: "run_invariant cfgs b s"
  shows "run_invariant cfgs False (select_model_widget cfgs s)"
proof (cases "selected_platform s")
  case None
  with inv have "widgets_in_step cfgs s"
    by (simp add: run_invariant_def widgets_in_step_def no_orphan_model_def
        selection_consistent_def)
  with inv None show ?thesis
    by (simp add: select_model_widget_no_platform run_invariant_def)
next
  case (Some p)
  from inv have known: "platforms_known cfgs s" by (simp add: run_invariant_def)
  from ne known Some have w: "widgets_in_step cfgs (select_model_widget cfgs s)"
    by (rule select_model_widget_in_step)
  from select_model_widget_coherent [OF ne known Some] w show ?thesis
    by (simp add: run_invariant_def widgets_in_step_def)
qed

lemma display_widgets_invariant:
  assumes ne: "nonempty_table cfgs" and inv: "run_invariant cfgs b s"
  shows "\<exists>s'. display_widgets cfgs km env s = Inr s' \<and> run_invariant cfgs False s'"
proof -
  from select_platform_widget_invariant [OF ne inv] obtain s1 b1
    where s1: "select_platform_widget cfgs km env s = Inr s1"
      and inv1: "run_invariant cfgs b1 s1" by blast
  from select_model_widget_invariant [OF ne inv1] s1 show ?thesis
    by (simp add: display_widgets_def)
qed

lemma platform_value_event_invariant:
  assumes ne: "nonempty_table cfgs" and inv: "run_invariant cfgs b s"
  shows "run_invariant cfgs (pending_after cfgs km (PlatformPick v) s b)
           (platform_value_event cfgs v s)"
proof (cases "pick_fires (platform_dropdown s) v")
  case False
  then have "platform_value_event cfgs v s = s"
    by (auto simp: platform_value_event_def pick_fires_def split: option.splits)
  with inv False show ?thesis by simp
next
  case True
  then obtain d where d: "platform_dropdown s = Some d"
    and v: "v \<in> set (dd_options d)" "v \<noteq> dd_value d"
    by (auto simp: pick_fires_def split: option.splits)
  let ?s1 = "s\<lparr>platform_dropdown := Some (d\<lparr>dd_value := v\<rparr>), selected_platform := Some v\<rparr>"
  from d v have ev: "platform_value_event cfgs v s = select_model_widget cfgs ?s1"
    by (simp add: platform_value_event_def on_platform_change_def value_change_def)
  from inv d v have "platforms_known cfgs ?s1"
    by (auto simp: run_invariant_def platforms_known_def)
  moreover have "no_orphan_model ?s1" by (simp add: no_orphan_model_def)
  moreover from inv have "model_widget_coherent cfgs ?s1"
    by (simp add: run_invariant_def model_widget_coherent_def cong: option.case_cong)
  ultimately have "run_invariant cfgs True ?s1" by (simp add: run_invariant_def)
  with ne have "run_invariant cfgs False (select_model_widget cfgs ?s1)"
    by (rule select_model_widget_invariant)
  with ev True show ?thesis by simp
qed

lemma model_value_event_invariant:
  assumes inv: "run_invariant cfgs b s"
  shows "run_invariant cfgs b (model_value_event v s)"
proof (cases "pick_fires (model_dropdown s) v")
  case False
  then have "model_value_event v s = s"
    by (auto simp: model_value_event_def pick_fires_def split: option.splits)
  with inv show ?thesis by simp
next
  case True
  then obtain d where d: "model_dropdown s = Some d"
    and v: "v \<in> set (dd_options d)" "v \<noteq> dd_value d"
    by (auto simp: pick_fires_def split: option.splits)
  let ?s1 = "s\<lparr>model_dropdown := Some (d\<lparr>dd_value := v\<rparr>), selected_model := Some v\<rparr>"
  from d v have ev: "model_value_event v s = ?s1"
    by (simp add: model_value_event_def on_model_change_def value_change_def)
  from inv d have k: "platforms_known cfgs ?s1" and o: "no_orphan_model ?s1"
    by (auto simp: run_invariant_def platforms_known_def no_orphan_model_def
        split: option.splits)
  from inv d v have c: "model_widget_coherent cfgs ?s1"
    by (simp add: run_invariant_def model_widget_coherent_def)
  have "widgets_in_step cfgs ?s1" if "widgets_in_step cfgs s"
    using that d v
    by (auto simp: widgets_in_step_def platforms_known_def selection_consistent_def
        split: option.splits)
  with inv k o c show ?thesis unfolding ev by (simp add: run_invariant_def)
qed

lemma step_invariant:
  assumes ne: "nonempty_table cfgs" and inv: "run_invariant cfgs b s"
  shows "\<exists>s'. step cfgs km c s = Inr s' \<and> run_invariant cfgs (pending_after cfgs km c s b) s'"
proof (cases c)
  case (SelectPlatformWidget env)
  with select_platform_widget_invariant [OF ne inv, of km env] show ?thesis by simp
next
  case SelectModelWidget
  with select_model_widget_invariant [OF ne inv] show ?thesis by simp
next
  case (DisplayWidgets env)
  with display_widgets_invariant [OF ne inv, of km env] show ?thesis by simp
next
  case (PlatformPick v)
  with platform_value_event_invariant [OF ne inv, of km v] show ?thesis by simp
next
  case (ModelPick v)
  with model_value_event_invariant [OF inv, of v] show ?thesis by simp
qed

lemma run_keeps_invariant:
  assumes ne: "nonempty_table cfgs"
  shows "run_invariant cfgs b s \<Longrightarrow>
    \<exists>s'. run cfgs km calls s = Inr s' \<and> run_invariant cfgs (run_pending cfgs km calls s b) s'"
proof (induction calls arbitrary: s b)
  case Nil
  then show ?case by simp
next
  case (Cons c calls)
  from step_invariant [OF ne Cons.prems, of km c] obtain s1
    where s1: "step cfgs km c s = Inr s1"
      and inv1: "run_invariant cfgs (pending_after cfgs km c s b) s1" by blast
  from Cons.IH [OF inv1] s1 show ?case by simp
qed

lemma run_invariant_init: "run_invariant cfgs False init_state"
  by (simp add: run_invariant_def widgets_in_step_def platforms_known_def
      selection_consistent_def no_orphan_model_def model_widget_coherent_def init_state_def)

lemma model_configs_models_disjoint:
  "(p, cp) \<in> set model_configs \<Longrightarrow> (q, cq) \<in> set model_configs \<Longrightarrow>
     m \<in> fst ` set cp \<Longrightarrow> m \<in> fst ` set cq \<Longrightarrow> p = q"
  unfolding model_configs_def by (elim disjE | simp | force)+

lemma model_options_listed:
  assumes "m \<in> set (model_options cfgs p)"
  shows "\<exists>cp. (p, cp) \<in> set cfgs \<and> m \<in> fst ` set cp"
proof (cases "map_of cfgs p")
  case None
  with assms show ?thesis by (simp add: model_options_def platform_configs_def)
next
  case (Some cp)
  then have "(p, cp) \<in> set cfgs" by (rule map_of_SomeD)
  moreover from assms Some have "m \<in> fst ` set cp"
    by (simp add: model_options_def platform_configs_def)
  ultimately show ?thesis by blast
qed

lemma consistent_iff_built_for_selection:
  assumes inv: "run_invariant model_configs b s"
  shows "selection_consistent model_configs s =
    (selected_model s = None \<or> built_for_selection model_configs s)"
proof (cases "selected_model s")
  case None
  then show ?thesis by (simp add: selection_consistent_def split: option.splits)
next
  case (Some m)
  from inv have orphan: "no_orphan_model s" and coh: "model_widget_coherent model_configs s"
    by (simp_all add: run_invariant_def)
  from orphan Some obtain p where p: "selected_platform s = Some p"
    by (cases "selected_platform s") (auto simp: no_orphan_model_def)
  from coh Some obtain d where d: "model_dropdown s = Some d"
    by (cases "model_dropdown s") (auto simp: model_widget_coherent_def)
  from coh d Some obtain q cq where q: "(q, cq) \<in> set model_configs"
    and dq: "dd_options d = model_options model_configs q"
    and md: "m \<in> set (dd_options d)"
    by (auto simp: model_widget_coherent_def list_ex_iff)
  show ?thesis
  proof
    assume "selection_consistent model_configs s"
    with p Some have mp: "m \<in> set (model_options model_configs p)"
      by (simp add: selection_consistent_def)
    from model_options_listed [OF mp] obtain cp
      where cp: "(p, cp) \<in> set model_configs" "m \<in> fst ` set cp" by blast
    from md dq have "m \<in> set (model_options model_configs q)" by simp
    from model_options_listed [OF this] obtain cq'
      where cq': "(q, cq') \<in> set model_configs" "m \<in> fst ` set cq'" by blast
    from cp(1) cq'(1) cp(2) cq'(2) have "p = q" by (rule model_configs_models_disjoint)
    with dq p d have "built_for_selection model_configs s"
      by (simp add: built_for_selection_def)
    then show "selected_model s = None \<or> built_for_selection model_configs s" ..
  next
    assume "selected_model s = None \<or> built_for_selection model_configs s"
    with Some have "built_for_selection model_configs s" by simp
    with p d have "dd_options d = model_options model_configs p"
      by (simp add: built_for_selection_def)
    with md p Some show "selection_consistent model_configs s"
      by (simp add: selection_consistent_def)
  qed
qed

section \<open>The claims\<close>

subsection \<open>C1: the selected model belongs to the selected platform\<close>

text \<open>
  C1 says that after any sequence of \<^verbatim>\<open>select_platform_widget\<close>,
  \<^verbatim>\<open>select_model_widget\<close>, platform picks and model picks, a selected model is one of
  the models of the selected platform. \<^verbatim>\<open>select_platform_widget\<close> assigns the default
  platform and does not rebuild the model widget, so a call of it after a pick leaves the
  model of the platform picked before, as the counterexample below shows. What holds,
  for every sequence of the three widget methods, platform picks and model picks on a
  fresh instance, in any environments: no call raises; in the state reached the selected
  model, if there is one, is listed for the selected platform exactly when the model
  dropdown of the instance was built for the selected platform; and that is the case
  whenever \<^verbatim>\<open>select_model_widget\<close> has run since \<^verbatim>\<open>select_platform_widget\<close> last
  changed the selected platform, be it called directly, by \<^verbatim>\<open>display_widgets\<close>,
  or by \<^verbatim>\<open>on_platform_change\<close> after a pick in the platform dropdown. The only
  assignments to \<^verbatim>\<open>selected_model\<close> are the first model of the platform just selected
  and an option of the model dropdown.
\<close>

theorem C1_selection_consistent_iff_model_widget_current:
  "\<exists>s. run model_configs api_key_map calls init_state = Inr s \<and>
     selection_consistent model_configs s =
       (selected_model s = None \<or> built_for_selection model_configs s) \<and>
     (\<not> run_pending model_configs api_key_map calls init_state False \<longrightarrow>
        selection_consistent model_configs s)"
proof -
  from run_keeps_invariant [OF nonempty_table_model_configs run_invariant_init]
  obtain s where r: "run model_configs api_key_map calls init_state = Inr s"
    and i: "run_invariant model_configs
              (run_pending model_configs api_key_map calls init_state False) s" by blast
  from i have one: "selection_consistent model_configs s =
       (selected_model s = None \<or> built_for_selection model_configs s)"
    by (rule consistent_iff_built_for_selection)
  from i have two: "\<not> run_pending model_configs api_key_map calls init_state False \<longrightarrow>
        selection_consistent model_configs s"
    by (auto simp: run_invariant_def widgets_in_step_def)
  from r one two show ?thesis by blast
qed

theorem C1_witness:
  "\<not> run_pending model_configs api_key_map
       [SelectPlatformWidget env_two, PlatformPick ''Deepseek'', ModelPick ''deepseek-coder'']
       init_state False \<and>
   (\<exists>s. run model_configs api_key_map
          [SelectPlatformWidget env_two, PlatformPick ''Deepseek'', ModelPick ''deepseek-coder'']
          init_state = Inr s \<and>
        selection_consistent model_configs s)"
proof -
  have np: "\<not> run_pending model_configs api_key_map
       [SelectPlatformWidget env_two, PlatformPick ''Deepseek'', ModelPick ''deepseek-coder'']
       init_state False"
    by (simp add: model_configs_def api_key_map_def env_two_def init_state_def
      select_platform_widget_def select_model_widget_def platform_value_event_def
      on_platform_change_def value_change_def check_api_key_exists_def model_options_def
      platform_configs_def pick_fires_def)
  with C1_selection_consistent_iff_model_widget_current
    [of "[SelectPlatformWidget env_two, PlatformPick ''Deepseek'', ModelPick ''deepseek-coder'']"]
  show ?thesis by blast
qed

text \<open>
  With keys for OpenAI and Deepseek: build both widgets, pick \<^verbatim>\<open>Deepseek\<close>, call
  \<^verbatim>\<open>select_platform_widget\<close> again. The platform is back to \<^verbatim>\<open>OpenAI\<close>, the model
  is still \<^verbatim>\<open>deepseek-chat\<close>.
\<close>

theorem C1_counterexample:
  "run model_configs api_key_map
     [SelectPlatformWidget env_two, SelectModelWidget, PlatformPick ''Deepseek'',
      SelectPlatformWidget env_two] init_state = Inr stale_state \<and>
   \<not> selection_consistent model_configs stale_state"
  by (simp add: model_configs_def api_key_map_def env_two_def init_state_def stale_state_def
      select_platform_widget_def select_model_widget_def platform_value_event_def
      on_platform_change_def value_change_def check_api_key_exists_def model_options_def
      platform_configs_def platform_dropdown_two_def deepseek_dropdown_def
      selection_consistent_def)

subsection \<open>C2: a platform is available iff its key is in the environment\<close>

text \<open>
  C2: for every platform of \<open>model_configs\<close>, the list of available platforms that
  \<^verbatim>\<open>select_platform_widget\<close> computes contains the name of the platform if and only
  if the environment variable that \<open>api_key_map\<close> gives for the platform key is set to
  a non-empty string. The platform key is the one paired with any model of the platform;
  in \<open>model_configs\<close> all models of a platform carry the same key. The computation
  never raises on \<open>model_configs\<close>.
\<close>

theorem C2_available_iff_key_present:
  "\<exists>avail. available_platforms model_configs api_key_map env = Inr avail \<and>
     (\<forall>(name, configs) \<in> set model_configs. \<forall>(m, platform_key) \<in> set configs.
        (name \<in> set avail) =
        (\<exists>env_var v. map_of api_key_map platform_key = Some env_var \<and>
           env env_var = Some v \<and> v \<noteq> []))"
proof -
  from available_platforms_total [OF nonempty_table_model_configs]
  obtain avail where avail: "available_platforms model_configs api_key_map env = Inr avail" ..
  have "(name \<in> set avail) =
        (\<exists>env_var v. map_of api_key_map platform_key = Some env_var \<and>
           env env_var = Some v \<and> v \<noteq> [])"
    if mem: "(name, configs) \<in> set model_configs" and key: "(m, platform_key) \<in> set configs"
    for name configs m platform_key
  proof -
    have "(name \<in> set avail) = check_api_key_exists api_key_map env (snd (hd configs))"
      using avail distinct_model_configs mem by (rule available_platforms_mem)
    also have "snd (hd configs) = platform_key"
      using mem key by (rule model_configs_shared_key)
    also have "check_api_key_exists api_key_map env platform_key =
        (\<exists>env_var v. map_of api_key_map platform_key = Some env_var \<and>
           env env_var = Some v \<and> v \<noteq> [])"
      unfolding check_api_key_exists_iff using api_key_map_vars_nonempty by blast
    finally show ?thesis .
  qed
  then have "\<forall>(name, configs) \<in> set model_configs. \<forall>(m, platform_key) \<in> set configs.
        (name \<in> set avail) =
        (\<exists>env_var v. map_of api_key_map platform_key = Some env_var \<and>
           env env_var = Some v \<and> v \<noteq> [])"
    by fast
  with avail show ?thesis by (intro exI conjI)
qed

theorem C2_witness:
  "(''OpenAI'', [(''gpt-4o'', ''openai''), (''gpt-3.5-turbo'', ''openai''),
       (''gpt-5-nano'', ''openai'')]) \<in> set model_configs \<and>
   (\<exists>avail. available_platforms model_configs api_key_map env_openai = Inr avail \<and>
      ''OpenAI'' \<in> set avail \<and> ''Gemini'' \<notin> set avail)"
proof -
  let ?cs = "[(''gpt-4o'', ''openai''), (''gpt-3.5-turbo'', ''openai''),
       (''gpt-5-nano'', ''openai'')]"
  let ?gs = "[(''gemini-pro'', ''gemini''), (''gemini-flash'', ''gemini'')]"
  from C2_available_iff_key_present [of env_openai] obtain avail
    where a: "available_platforms model_configs api_key_map env_openai = Inr avail"
      and b: "\<forall>(name, configs) \<in> set model_configs. \<forall>(m, platform_key) \<in> set configs.
        (name \<in> set avail) =
        (\<exists>env_var v. map_of api_key_map platform_key = Some env_var \<and>
           env_openai env_var = Some v \<and> v \<noteq> [])"
    by blast
  have m: "(''OpenAI'', ?cs) \<in> set model_configs" and g: "(''Gemini'', ?gs) \<in> set model_configs"
    by (simp_all add: model_configs_def)
  from b m have "\<forall>(m, platform_key) \<in> set ?cs.
        (''OpenAI'' \<in> set avail) =
        (\<exists>env_var v. map_of api_key_map platform_key = Some env_var \<and>
           env_openai env_var = Some v \<and> v \<noteq> [])"
    by blast
  then have "(''OpenAI'' \<in> set avail) =
        (\<exists>env_var v. map_of api_key_map ''openai'' = Some env_var \<and>
           env_openai env_var = Some v \<and> v \<noteq> [])"
    by simp
  then have o: "''OpenAI'' \<in> set avail"
    by (simp add: api_key_map_def env_openai_def)
  from b g have "\<forall>(m, platform_key) \<in> set ?gs.
        (''Gemini'' \<in> set avail) =
        (\<exists>env_var v. map_of api_key_map platform_key = Some env_var \<and>
           env_openai env_var = Some v \<and> v \<noteq> [])"
    by blast
  then have "(''Gemini'' \<in> set avail) =
        (\<exists>env_var v. map_of api_key_map ''gemini'' = Some env_var \<and>
           env_openai env_var = Some v \<and> v \<noteq> [])"
    by simp
  then have n: "''Gemini'' \<notin> set avail"
    by (simp add: api_key_map_def env_openai_def)
  from a m o n show ?thesis by blast
qed

subsection \<open>C3: the formatted selection\<close>

text \<open>
  C3 says that \<^verbatim>\<open>get_model_params\<close> returns \<^verbatim>\<open>None\<close> exactly when the platform or
  the model is unset. It also returns \<^verbatim>\<open>None\<close> when both are set and the model is not
  listed for the platform, as the counterexample below shows at a state the class reaches.
  What holds: \<^verbatim>\<open>get_model_params\<close> returns \<^verbatim>\<open>None\<close> when the platform or the model
  is \<^verbatim>\<open>None\<close> or empty; when both are set and non-empty it returns \<^verbatim>\<open>None\<close> exactly
  when the model is not listed for the platform, and otherwise the string
  \<^verbatim>\<open>platform_key:model_name\<close> with a key paired with that model in the list of the
  platform.
\<close>

theorem C3_get_model_params_format:
  "(\<not> truthy (selected_platform s) \<or> \<not> truthy (selected_model s) \<longrightarrow>
      get_model_params cfgs s = None) \<and>
   (selected_platform s = Some p \<and> selected_model s = Some m \<and> p \<noteq> [] \<and> m \<noteq> [] \<longrightarrow>
      (get_model_params cfgs s = None) = (m \<notin> set (model_options cfgs p)) \<and>
      (m \<in> set (model_options cfgs p) \<longrightarrow>
         (\<exists>platform_key. (m, platform_key) \<in> set (platform_configs cfgs p) \<and>
            get_model_params cfgs s = Some (platform_key @ '':'' @ m))))"
proof (intro conjI impI)
  assume "\<not> truthy (selected_platform s) \<or> \<not> truthy (selected_model s)"
  then show "get_model_params cfgs s = None" by (auto simp: get_model_params_def)
next
  assume a: "selected_platform s = Some p \<and> selected_model s = Some m \<and> p \<noteq> [] \<and> m \<noteq> []"
  then have g: "get_model_params cfgs s = find_model_params (platform_configs cfgs p) m"
    by (simp add: get_model_params_def)
  show n: "(get_model_params cfgs s = None) = (m \<notin> set (model_options cfgs p))"
    by (simp add: g find_model_params_None model_options_def)
  assume "m \<in> set (model_options cfgs p)"
  with n obtain r where r: "get_model_params cfgs s = Some r" by auto
  with g have "find_model_params (platform_configs cfgs p) m = Some r" by simp
  from find_model_params_Some [OF this] r
  show "\<exists>platform_key. (m, platform_key) \<in> set (platform_configs cfgs p) \<and>
            get_model_params cfgs s = Some (platform_key @ '':'' @ m)" by auto
qed

theorem C3_witness:
  "selected_platform openai_state = Some ''OpenAI'' \<and>
   selected_model openai_state = Some ''gpt-4o'' \<and>
   ''gpt-4o'' \<in> set (model_options model_configs ''OpenAI'') \<and>
   get_model_params model_configs openai_state = Some ''openai:gpt-4o'' \<and>
   \<not> truthy (selected_model init_state) \<and>
   get_model_params model_configs init_state = None"
proof -
  have p: "selected_platform openai_state = Some ''OpenAI''"
    and m: "selected_model openai_state = Some ''gpt-4o''"
    by (simp_all add: openai_state_def)
  have l: "''gpt-4o'' \<in> set (model_options model_configs ''OpenAI'')"
    by (simp add: model_options_def platform_configs_def model_configs_def)
  from C3_get_model_params_format [of openai_state model_configs "''OpenAI''" "''gpt-4o''"] p m l
  obtain platform_key
    where k: "(''gpt-4o'', platform_key) \<in> set (platform_configs model_configs ''OpenAI'')"
      and r: "get_model_params model_configs openai_state = Some (platform_key @ '':'' @ ''gpt-4o'')"
    by auto
  from k have "platform_key = ''openai''"
    by (simp add: platform_configs_def model_configs_def)
  with r have g: "get_model_params model_configs openai_state = Some ''openai:gpt-4o''"
    by simp
  have u: "\<not> truthy (selected_model init_state)" by (simp add: init_state_def)
  with C3_get_model_params_format [of init_state model_configs]
  have "get_model_params model_configs init_state = None" by blast
  with p m l g u show ?thesis by blast
qed

text \<open>
  With keys for OpenAI and Deepseek: \<^verbatim>\<open>display_widgets\<close>, a pick of
  \<^verbatim>\<open>Deepseek\<close>, then \<^verbatim>\<open>select_platform_widget\<close>. In the state reached both
  attributes are set and the result is \<^verbatim>\<open>None\<close>.
\<close>

theorem C3_counterexample:
  "run model_configs api_key_map
     [DisplayWidgets env_two, PlatformPick ''Deepseek'', SelectPlatformWidget env_two]
     init_state = Inr stale_state \<and>
   selected_platform stale_state = Some ''OpenAI'' \<and>
   selected_model stale_state = Some ''deepseek-chat'' \<and>
   get_model_params model_configs stale_state = None"
  by (simp add: model_configs_def api_key_map_def env_two_def init_state_def stale_state_def
      select_platform_widget_def select_model_widget_def platform_value_event_def
      on_platform_change_def value_change_def check_api_key_exists_def model_options_def
      platform_configs_def platform_dropdown_two_def deepseek_dropdown_def
      display_widgets_def get_model_params_def)

subsection \<open>C4: the model defaults to the first model of the platform\<close>

text \<open>
  C4 says that every selection of a platform, the initial default included, sets the
  model to the first model of that platform. The default platform is assigned by
  \<^verbatim>\<open>select_platform_widget\<close>, which leaves \<^verbatim>\<open>selected_model\<close> as it was, as the
  counterexample below shows. What holds, for every platform of \<open>model_configs\<close>:
  a change of the platform dropdown to that platform, handled by
  \<^verbatim>\<open>on_platform_change\<close>, selects the platform, sets \<^verbatim>\<open>selected_model\<close> and the
  dropdown value of a new model dropdown to the first model name of its list, and offers
  the model names of the list; \<^verbatim>\<open>display_widgets\<close>, when that platform is the first
  available one, does the same; and \<^verbatim>\<open>select_platform_widget\<close> on its own, in every
  state and environment, returns normally, selects the first available platform if there
  is one, and leaves \<^verbatim>\<open>selected_model\<close> and the model dropdown as they were.
\<close>

theorem C4_model_defaults_to_first:
  "(name, configs) \<in> set model_configs \<Longrightarrow>
     (selected_platform (on_platform_change model_configs (value_change name) s) = Some name \<and>
      selected_model (on_platform_change model_configs (value_change name) s) =
        Some (fst (hd configs)) \<and>
      model_dropdown (on_platform_change model_configs (value_change name) s) =
        Some \<lparr>dd_options = map fst configs, dd_value = fst (hd configs),
              dd_description = ''Model:'', dd_disabled = False\<rparr>) \<and>
     (platform_dropdown s = Some d \<and> name \<in> set (dd_options d) \<and> name \<noteq> dd_value d \<longrightarrow>
        selected_platform (platform_value_event model_configs name s) = Some name \<and>
        selected_model (platform_value_event model_configs name s) = Some (fst (hd configs)) \<and>
        model_dropdown (platform_value_event model_configs name s) =
          Some \<lparr>dd_options = map fst configs, dd_value = fst (hd configs),
                dd_description = ''Model:'', dd_disabled = False\<rparr>) \<and>
     (available_platforms model_configs api_key_map env = Inr (name # rest) \<longrightarrow>
        (\<exists>s'. display_widgets model_configs api_key_map env s = Inr s' \<and>
           selected_platform s' = Some name \<and>
           selected_model s' = Some (fst (hd configs)) \<and>
           model_dropdown s' =
             Some \<lparr>dd_options = map fst configs, dd_value = fst (hd configs),
                   dd_description = ''Model:'', dd_disabled = False\<rparr>)) \<and>
     (\<exists>s'. select_platform_widget model_configs api_key_map env s = Inr s' \<and>
        selected_model s' = selected_model s \<and> model_dropdown s' = model_dropdown s \<and>
        (available_platforms model_configs api_key_map env = Inr (name # rest) \<longrightarrow>
           selected_platform s' = Some name))"
proof -
  assume mem: "(name, configs) \<in> set model_configs"
  with nonempty_table_model_configs have ne: "name \<noteq> [] \<and> configs \<noteq> []"
    by (rule nonempty_tableD)
  let ?dd = "Some \<lparr>dd_options = map fst configs, dd_value = fst (hd configs),
                 dd_description = ''Model:'', dd_disabled = False\<rparr>"
  have first: "selected_platform (select_model_widget model_configs s1) = Some name \<and>
         selected_model (select_model_widget model_configs s1) = Some (fst (hd configs)) \<and>
         model_dropdown (select_model_widget model_configs s1) = ?dd"
    if "selected_platform s1 = Some name" for s1
    using distinct_model_configs mem ne that by (intro select_model_widget_first_model) simp_all
  have a: "on_platform_change model_configs (value_change name) s1 =
      select_model_widget model_configs (s1\<lparr>selected_platform := Some name\<rparr>)" for s1
    by (simp add: on_platform_change_def value_change_def)
  have one: "selected_platform (on_platform_change model_configs (value_change name) s1) = Some name \<and>
      selected_model (on_platform_change model_configs (value_change name) s1) =
        Some (fst (hd configs)) \<and>
      model_dropdown (on_platform_change model_configs (value_change name) s1) = ?dd" for s1
    unfolding a by (rule first) simp
  have two: "selected_platform (platform_value_event model_configs name s) = Some name \<and>
        selected_model (platform_value_event model_configs name s) = Some (fst (hd configs)) \<and>
        model_dropdown (platform_value_event model_configs name s) = ?dd"
    if "platform_dropdown s = Some d \<and> name \<in> set (dd_options d) \<and> name \<noteq> dd_value d"
  proof -
    from that have "platform_value_event model_configs name s =
        on_platform_change model_configs (value_change name)
          (s\<lparr>platform_dropdown := Some (d\<lparr>dd_value := name\<rparr>)\<rparr>)"
      by (simp add: platform_value_event_def)
    with one show ?thesis by simp
  qed
  have three: "\<exists>s'. display_widgets model_configs api_key_map env s = Inr s' \<and>
           selected_platform s' = Some name \<and>
           selected_model s' = Some (fst (hd configs)) \<and> model_dropdown s' = ?dd"
    if av: "available_platforms model_configs api_key_map env = Inr (name # rest)"
  proof -
    from av obtain s1
      where s1: "select_platform_widget model_configs api_key_map env s = Inr s1"
        and p: "selected_platform s1 = Some name"
      by (simp add: select_platform_widget_def)
    from first [OF p] s1 show ?thesis by (simp add: display_widgets_def)
  qed
  have four: "\<exists>s'. select_platform_widget model_configs api_key_map env s = Inr s' \<and>
        selected_model s' = selected_model s \<and> model_dropdown s' = model_dropdown s \<and>
        (available_platforms model_configs api_key_map env = Inr (name # rest) \<longrightarrow>
           selected_platform s' = Some name)"
  proof -
    from available_platforms_total [OF nonempty_table_model_configs]
    obtain avail where avail: "available_platforms model_configs api_key_map env = Inr avail" ..
    then show ?thesis by (cases avail) (simp_all add: select_platform_widget_def)
  qed
  from one two three four show ?thesis by blast
qed

theorem C4_witness:
  "(''Deepseek'', [(''deepseek-chat'', ''deepseek''), (''deepseek-coder'', ''deepseek'')])
     \<in> set model_configs \<and>
   selected_model (on_platform_change model_configs (value_change ''Deepseek'') openai_state) =
     Some ''deepseek-chat'' \<and>
   model_dropdown (on_platform_change model_configs (value_change ''Deepseek'') openai_state) =
     Some deepseek_dropdown \<and>
   platform_dropdown stale_state = Some platform_dropdown_two \<and>
   ''Deepseek'' \<in> set (dd_options platform_dropdown_two) \<and>
   ''Deepseek'' \<noteq> dd_value platform_dropdown_two \<and>
   selected_model (platform_value_event model_configs ''Deepseek'' stale_state) =
     Some ''deepseek-chat'' \<and>
   model_dropdown (platform_value_event model_configs ''Deepseek'' stale_state) =
     Some deepseek_dropdown \<and>
   available_platforms model_configs api_key_map env_deepseek = Inr [''Deepseek''] \<and>
   (\<exists>s'. display_widgets model_configs api_key_map env_deepseek init_state = Inr s' \<and>
      selected_platform s' = Some ''Deepseek'' \<and> selected_model s' = Some ''deepseek-chat'' \<and>
      model_dropdown s' = Some deepseek_dropdown) \<and>
   (\<exists>s'. select_platform_widget model_configs api_key_map env_deepseek openai_state = Inr s' \<and>
      selected_platform s' = Some ''Deepseek'' \<and> selected_model s' = Some ''gpt-4o'')"
proof -
  let ?cs = "[(''deepseek-chat'', ''deepseek''), (''deepseek-coder'', ''deepseek'')]"
  have m: "(''Deepseek'', ?cs) \<in> set model_configs" by (simp add: model_configs_def)
  have d: "platform_dropdown stale_state = Some platform_dropdown_two \<and>
      ''Deepseek'' \<in> set (dd_options platform_dropdown_two) \<and>
      ''Deepseek'' \<noteq> dd_value platform_dropdown_two"
    by (simp add: stale_state_def platform_dropdown_two_def)
  have a: "available_platforms model_configs api_key_map env_deepseek = Inr [''Deepseek'']"
    by (simp add: model_configs_def api_key_map_def env_deepseek_def check_api_key_exists_def)
  have g: "selected_model openai_state = Some ''gpt-4o''" by (simp add: openai_state_def)
  from C4_model_defaults_to_first [OF m, of openai_state]
  have one: "selected_model
      (on_platform_change model_configs (value_change ''Deepseek'') openai_state) =
      Some ''deepseek-chat'' \<and>
    model_dropdown
      (on_platform_change model_configs (value_change ''Deepseek'') openai_state) =
      Some deepseek_dropdown" by (simp add: deepseek_dropdown_def)
  from C4_model_defaults_to_first [OF m, of stale_state platform_dropdown_two] d
  have two: "selected_model (platform_value_event model_configs ''Deepseek'' stale_state) =
      Some ''deepseek-chat'' \<and>
    model_dropdown (platform_value_event model_configs ''Deepseek'' stale_state) =
      Some deepseek_dropdown" by (simp add: deepseek_dropdown_def)
  from C4_model_defaults_to_first [OF m, of init_state _ env_deepseek "[]"] a
  have three: "\<exists>s'. display_widgets model_configs api_key_map env_deepseek init_state = Inr s' \<and>
      selected_platform s' = Some ''Deepseek'' \<and> selected_model s' = Some ''deepseek-chat'' \<and>
      model_dropdown s' = Some deepseek_dropdown"
    by (simp add: deepseek_dropdown_def)
  from C4_model_defaults_to_first
    [OF m, of openai_state platform_dropdown_two env_deepseek "[]"] a
  obtain s1 where "select_platform_widget model_configs api_key_map env_deepseek openai_state =
      Inr s1" and "selected_model s1 = selected_model openai_state"
    and "selected_platform s1 = Some ''Deepseek''"
    by blast
  with g
  have four: "\<exists>s'. select_platform_widget model_configs api_key_map env_deepseek openai_state =
      Inr s' \<and> selected_platform s' = Some ''Deepseek'' \<and> selected_model s' = Some ''gpt-4o''"
    by simp
  from m d a one two three four show ?thesis by blast
qed

text \<open>
  On a fresh instance with the OpenAI key set, \<^verbatim>\<open>select_platform_widget\<close> selects
  \<^verbatim>\<open>OpenAI\<close> and the model stays \<^verbatim>\<open>None\<close>.
\<close>

theorem C4_counterexample:
  "select_platform_widget model_configs api_key_map env_openai init_state =
     Inr \<lparr>platform_dropdown =
            Some \<lparr>dd_options = [''OpenAI''], dd_value = ''OpenAI'',
                  dd_description = ''Platform:'', dd_disabled = False\<rparr>,
          model_dropdown = None,
          selected_platform = Some ''OpenAI'',
          selected_model = None,
          platform_output = DropdownShown,
          model_output = Blank\<rparr>"
  by (simp add: model_configs_def api_key_map_def env_openai_def init_state_def
      select_platform_widget_def check_api_key_exists_def)

subsection \<open>C5: the two degenerate conditions print a message\<close>

text \<open>
  C5: on \<open>model_configs\<close>, \<^verbatim>\<open>select_platform_widget\<close> returns normally in every
  environment and state; when no variable of \<open>api_key_map\<close> is set to a non-empty
  string, the available list is empty and the call only replaces the content of the
  platform output by the message. \<^verbatim>\<open>select_model_widget\<close> has no raising operation;
  when the selected platform has no models, it only replaces the content of the model
  output by the message naming the platform.
\<close>

theorem C5_degenerate_conditions_are_messages:
  "(\<exists>s'. select_platform_widget model_configs api_key_map env s = Inr s') \<and>
   ((\<forall>(platform_key, env_var) \<in> set api_key_map. \<not> truthy (env env_var)) \<longrightarrow>
      available_platforms model_configs api_key_map env = Inr [] \<and>
      select_platform_widget model_configs api_key_map env s =
        Inr (s\<lparr>platform_output := Printed no_keys_message\<rparr>)) \<and>
   (selected_platform s = Some p \<and> p \<noteq> [] \<and> model_options cfgs p = [] \<longrightarrow>
      select_model_widget cfgs s = s\<lparr>model_output := Printed (no_models_message p)\<rparr>)"
proof (intro conjI impI)
  from available_platforms_total [OF nonempty_table_model_configs]
  obtain avail where avail: "available_platforms model_configs api_key_map env = Inr avail" ..
  then show "\<exists>s'. select_platform_widget model_configs api_key_map env s = Inr s'"
    by (cases avail) (simp_all add: select_platform_widget_def)
  {
    assume nokey: "\<forall>(platform_key, env_var) \<in> set api_key_map. \<not> truthy (env env_var)"
    from nokey avail have "avail = []" by (rule no_key_no_platform)
    with avail show a: "available_platforms model_configs api_key_map env = Inr []" by simp
    then show "select_platform_widget model_configs api_key_map env s =
        Inr (s\<lparr>platform_output := Printed no_keys_message\<rparr>)"
      by (simp add: select_platform_widget_def)
  }
  {
    assume "selected_platform s = Some p \<and> p \<noteq> [] \<and> model_options cfgs p = []"
    then show "select_model_widget cfgs s = s\<lparr>model_output := Printed (no_models_message p)\<rparr>"
      by (simp add: select_model_widget_def)
  }
qed

theorem C5_witness:
  "list_all (\<lambda>(platform_key, env_var). \<not> truthy (env_none env_var)) api_key_map \<and>
   select_platform_widget model_configs api_key_map env_none init_state =
     Inr (init_state\<lparr>platform_output := Printed no_keys_message\<rparr>) \<and>
   selected_platform unknown_platform_state = Some ''Mistral'' \<and>
   model_options model_configs ''Mistral'' = [] \<and>
   select_model_widget model_configs unknown_platform_state =
     unknown_platform_state\<lparr>model_output := Printed ''No models configured for Mistral.''\<rparr>"
proof -
  have n: "\<forall>(platform_key, env_var) \<in> set api_key_map. \<not> truthy (env_none env_var)"
    by (simp add: env_none_def)
  have p: "selected_platform unknown_platform_state = Some ''Mistral''"
    by (simp add: unknown_platform_state_def)
  have o: "model_options model_configs ''Mistral'' = []"
    by (simp add: model_options_def platform_configs_def model_configs_def)
  from C5_degenerate_conditions_are_messages [of env_none init_state] n
  have one: "select_platform_widget model_configs api_key_map env_none init_state =
     Inr (init_state\<lparr>platform_output := Printed no_keys_message\<rparr>)" by blast
  from C5_degenerate_conditions_are_messages
    [of env_none unknown_platform_state "''Mistral''" model_configs] p o
  have "select_model_widget model_configs unknown_platform_state =
     unknown_platform_state\<lparr>model_output := Printed (no_models_message ''Mistral'')\<rparr>" by simp
  then have two: "select_model_widget model_configs unknown_platform_state =
     unknown_platform_state\<lparr>model_output := Printed ''No models configured for Mistral.''\<rparr>"
    by (simp add: no_models_message_def)
  from n have "list_all (\<lambda>(platform_key, env_var). \<not> truthy (env_none env_var)) api_key_map"
    by (simp add: list_all_iff)
  with one p o two show ?thesis by blast
qed

subsection \<open>C6: the platform defaults to the first available one\<close>

text \<open>
  C6: when the list of available platforms is not empty, \<^verbatim>\<open>select_platform_widget\<close>
  returns normally, the new platform dropdown offers that list and has its first entry
  as value, and \<^verbatim>\<open>selected_platform\<close> is that first entry.
\<close>

theorem C6_default_is_first_available:
  "available_platforms cfgs km env = Inr (p # ps) \<Longrightarrow>
     \<exists>s' d. select_platform_widget cfgs km env s = Inr s' \<and>
       selected_platform s' = Some p \<and>
       platform_dropdown s' = Some d \<and> dd_value d = p \<and> dd_options d = p # ps"
  by (simp add: select_platform_widget_def)

theorem C6_witness:
  "available_platforms model_configs api_key_map env_two = Inr [''OpenAI'', ''Deepseek''] \<and>
   (\<exists>s' d. select_platform_widget model_configs api_key_map env_two init_state = Inr s' \<and>
      selected_platform s' = Some ''OpenAI'' \<and>
      platform_dropdown s' = Some d \<and> dd_value d = ''OpenAI'' \<and>
      dd_options d = [''OpenAI'', ''Deepseek''])"
proof -
  have a: "available_platforms model_configs api_key_map env_two = Inr [''OpenAI'', ''Deepseek'']"
    by (simp add: model_configs_def api_key_map_def env_two_def check_api_key_exists_def)
  from C6_default_is_first_available [OF a, of init_state] a show ?thesis by blast
qed

subsection \<open>C7: the key check reads the environment of the call\<close>

text \<open>
  C7: \<^verbatim>\<open>_check_api_key_exists\<close> is a function of the environment at the call and of
  nothing the instance stores: it is true exactly when \<open>api_key_map\<close> maps the platform
  key to a variable that the environment sets to a non-empty string. Two environments
  that agree on the variables of \<open>api_key_map\<close> give the same answer, and the answers
  for \<^verbatim>\<open>openai\<close> differ between an environment with the OpenAI key and one without.
\<close>

theorem C7_check_api_key_exists_reads_environment:
  "check_api_key_exists api_key_map env platform_key =
     (\<exists>env_var v. map_of api_key_map platform_key = Some env_var \<and>
        env env_var = Some v \<and> v \<noteq> []) \<and>
   ((\<forall>env_var \<in> snd ` set api_key_map. env env_var = env' env_var) \<longrightarrow>
     check_api_key_exists api_key_map env platform_key =
     check_api_key_exists api_key_map env' platform_key) \<and>
   check_api_key_exists api_key_map env_openai ''openai'' \<noteq>
     check_api_key_exists api_key_map env_none ''openai''"
proof (intro conjI impI)
  show "check_api_key_exists api_key_map env platform_key =
     (\<exists>env_var v. map_of api_key_map platform_key = Some env_var \<and>
        env env_var = Some v \<and> v \<noteq> [])"
    unfolding check_api_key_exists_iff using api_key_map_vars_nonempty by blast
next
  assume same: "\<forall>env_var \<in> snd ` set api_key_map. env env_var = env' env_var"
  have "env var = env' var" if "map_of api_key_map platform_key = Some var" for var
  proof -
    from that have "(platform_key, var) \<in> set api_key_map" by (rule map_of_SomeD)
    then have "var \<in> snd ` set api_key_map" by force
    with same show ?thesis by blast
  qed
  then show "check_api_key_exists api_key_map env platform_key =
      check_api_key_exists api_key_map env' platform_key"
    by (cases "map_of api_key_map platform_key") (simp_all add: check_api_key_exists_def)
next
  show "check_api_key_exists api_key_map env_openai ''openai'' \<noteq>
     check_api_key_exists api_key_map env_none ''openai''"
    by (simp add: check_api_key_exists_def api_key_map_def env_openai_def env_none_def)
qed

theorem C7_witness:
  "check_api_key_exists api_key_map env_openai ''openai'' \<and>
   \<not> check_api_key_exists api_key_map env_empty_value ''openai'' \<and>
   list_all (\<lambda>(platform_key, env_var). env_openai env_var = env_openai_home env_var)
     api_key_map \<and>
   check_api_key_exists api_key_map env_openai_home ''openai''"
proof -
  have "\<exists>env_var v. map_of api_key_map ''openai'' = Some env_var \<and>
      env_openai env_var = Some v \<and> v \<noteq> []"
    by (simp add: api_key_map_def env_openai_def)
  with C7_check_api_key_exists_reads_environment [of env_openai "''openai''"]
  have one: "check_api_key_exists api_key_map env_openai ''openai''" by blast
  have "\<not> (\<exists>env_var v. map_of api_key_map ''openai'' = Some env_var \<and>
      env_empty_value env_var = Some v \<and> v \<noteq> [])"
    by (simp add: api_key_map_def env_empty_value_def)
  with C7_check_api_key_exists_reads_environment [of env_empty_value "''openai''"]
  have two: "\<not> check_api_key_exists api_key_map env_empty_value ''openai''" by blast
  have same: "\<forall>env_var \<in> snd ` set api_key_map. env_openai env_var = env_openai_home env_var"
    by (simp add: api_key_map_def env_openai_def env_openai_home_def)
  with C7_check_api_key_exists_reads_environment [of env_openai "''openai''" env_openai_home] one
  have three: "check_api_key_exists api_key_map env_openai_home ''openai''" by blast
  have "list_all (\<lambda>(platform_key, env_var). env_openai env_var = env_openai_home env_var)
     api_key_map"
    by (simp add: api_key_map_def env_openai_def env_openai_home_def)
  with one two three show ?thesis by blast
qed

subsection \<open>C8: a model that is not listed for the platform gives no string\<close>

text \<open>
  C8: in a state where \<^verbatim>\<open>selected_platform\<close> and \<^verbatim>\<open>selected_model\<close> are both set and
  the model is not among the model names listed for the platform,
  \<^verbatim>\<open>get_model_params\<close> returns \<^verbatim>\<open>None\<close>.
\<close>

theorem C8_mismatched_pair_gives_None:
  "selected_platform s = Some p \<Longrightarrow> selected_model s = Some m \<Longrightarrow>
     m \<notin> set (model_options cfgs p) \<Longrightarrow> get_model_params cfgs s = None"
  by (simp add: get_model_params_def model_options_def find_model_params_None)

theorem C8_witness:
  "selected_platform stale_state = Some ''OpenAI'' \<and>
   selected_model stale_state = Some ''deepseek-chat'' \<and>
   ''deepseek-chat'' \<notin> set (model_options model_configs ''OpenAI'') \<and>
   get_model_params model_configs stale_state = None"
proof -
  have p: "selected_platform stale_state = Some ''OpenAI''"
    and m: "selected_model stale_state = Some ''deepseek-chat''"
    by (simp_all add: stale_state_def)
  have n: "''deepseek-chat'' \<notin> set (model_options model_configs ''OpenAI'')"
    by (simp add: model_options_def platform_configs_def model_configs_def)
  from p m n C8_mismatched_pair_gives_None [OF p m n] show ?thesis by blast
qed

subsection \<open>C9: without a platform or without models the model selection stays\<close>

text \<open>
  C9: when \<^verbatim>\<open>selected_platform\<close> is unset (\<^verbatim>\<open>None\<close> or empty), or when the selected
  platform has no models in the table, \<^verbatim>\<open>select_model_widget\<close> returns a state with
  the same \<^verbatim>\<open>selected_model\<close> and the same \<^verbatim>\<open>model_dropdown\<close>.
\<close>

theorem C9_select_model_widget_frame:
  "\<not> truthy (selected_platform s) \<or>
     (selected_platform s = Some p \<and> model_options cfgs p = []) \<Longrightarrow>
   selected_model (select_model_widget cfgs s) = selected_model s \<and>
   model_dropdown (select_model_widget cfgs s) = model_dropdown s"
  by (auto simp: select_model_widget_def)

theorem C9_witness:
  "selected_platform unknown_platform_state = Some ''Mistral'' \<and>
   model_options model_configs ''Mistral'' = [] \<and>
   selected_model (select_model_widget model_configs unknown_platform_state) =
     Some ''deepseek-chat'' \<and>
   model_dropdown (select_model_widget model_configs unknown_platform_state) =
     Some deepseek_dropdown"
proof -
  have p: "selected_platform unknown_platform_state = Some ''Mistral''"
    by (simp add: unknown_platform_state_def)
  have o: "model_options model_configs ''Mistral'' = []"
    by (simp add: model_options_def platform_configs_def model_configs_def)
  from p o have "\<not> truthy (selected_platform unknown_platform_state) \<or>
     (selected_platform unknown_platform_state = Some ''Mistral'' \<and>
      model_options model_configs ''Mistral'' = [])" by blast
  from C9_select_model_widget_frame [OF this] p o show ?thesis
    by (simp add: unknown_platform_state_def stale_state_def)
qed

subsection \<open>C10: only the key of the first tuple decides availability\<close>

text \<open>
  C10: two tables with the same platform names whose lists agree on the key of the first
  tuple give the same list of available platforms, with the same exception if a list is
  empty, and the same result of \<^verbatim>\<open>select_platform_widget\<close>, whatever the keys of the
  other tuples are.
\<close>

theorem C10_only_first_key_consulted:
  "same_first_keys cfgs cfgs' \<Longrightarrow>
     available_platforms cfgs km env = available_platforms cfgs' km env \<and>
     select_platform_widget cfgs km env s = select_platform_widget cfgs' km env s"
  by (simp add: select_platform_widget_def available_platforms_same_first_keys)

theorem C10_witness:
  "same_first_keys model_configs mixed_configs \<and>
   available_platforms model_configs api_key_map env_openai =
     available_platforms mixed_configs api_key_map env_openai \<and>
   available_platforms mixed_configs api_key_map env_openai = Inr [''OpenAI'']"
proof -
  have s: "same_first_keys model_configs mixed_configs"
    by (simp add: same_first_keys_def model_configs_def mixed_configs_def)
  have a: "available_platforms mixed_configs api_key_map env_openai = Inr [''OpenAI'']"
    by (simp add: mixed_configs_def api_key_map_def env_openai_def check_api_key_exists_def)
  from s a C10_only_first_key_consulted [OF s, of api_key_map env_openai init_state]
  show ?thesis by blast
qed

end
